theory Spec2Isabelle
  imports Main "HOL-Library.Sublist" "HOL-Library.Char_ord" "HOL-Library.List_Lexorder"
begin

section \<open>Python strings\<close>

text \<open>
  A Python \<open>str\<close> is a sequence of code points. It is modelled as a \<open>string\<close> whose
  characters are read as the code points U+0000 to U+00FF, so \<open>length\<close> is Python's
  \<open>len\<close>, the order on \<open>char\<close> (by code) is Python's comparison of one-character
  strings, and the lexicographic order on lists is Python's comparison of strings.
  The test \<open>x in y\<close> on strings is \<open>sublist x y\<close>.
\<close>

definition py_isspace :: "char \<Rightarrow> bool" where
  \<comment> \<open>\<open>str.isspace\<close> on one character: the characters \<open>strip()\<close> and \<open>split()\<close> remove.\<close>
  "py_isspace c =
     (let n = (of_char c :: nat)
      in (9 \<le> n \<and> n \<le> 13) \<or> (28 \<le> n \<and> n \<le> 32) \<or> n = 133 \<or> n = 160)"

definition py_strip :: "string \<Rightarrow> string" where
  "py_strip s = rev (dropWhile py_isspace (rev (dropWhile py_isspace s)))"

fun split_from :: "string \<Rightarrow> string \<Rightarrow> string list" where
  \<comment> \<open>the first argument is the token being read, reversed\<close>
  "split_from cur [] = (if cur = [] then [] else [rev cur])"
| "split_from cur (c # cs) =
     (if py_isspace c
      then (if cur = [] then split_from [] cs else rev cur # split_from [] cs)
      else split_from (c # cur) cs)"

definition py_split :: "string \<Rightarrow> string list" where
  \<comment> \<open>\<open>s.split()\<close>: the maximal runs of characters that are not whitespace\<close>
  "py_split s = split_from [] s"

definition upper_char :: "char \<Rightarrow> string" where
  \<comment> \<open>\<open>str.upper\<close> on one character. U+00DF becomes \<open>SS\<close>. U+00B5 and U+00FF have their
      capital outside the range of the model; they stand for it, which no test against
      an ASCII text can tell apart.\<close>
  "upper_char c =
     (let n = (of_char c :: nat)
      in if 97 \<le> n \<and> n \<le> 122 then [char_of (n - 32)]
         else if n = 223 then ''SS''
         else if 224 \<le> n \<and> n \<le> 254 \<and> n \<noteq> 247 then [char_of (n - 32)]
         else [c])"

definition py_upper :: "string \<Rightarrow> string" where
  "py_upper s = concat (map upper_char s)"

datatype exn = ValueError string
  \<comment> \<open>\<open>invalid literal for int() with base 10\<close>, with the literal\<close>

definition is_digit :: "char \<Rightarrow> bool" where
  "is_digit c = (48 \<le> (of_char c :: nat) \<and> (of_char c :: nat) \<le> 57)"

definition digit_val :: "char \<Rightarrow> int" where
  "digit_val c = int (of_char c) - 48"

definition int_isspace :: "char \<Rightarrow> bool" where
  \<comment> \<open>the whitespace \<open>int()\<close> skips around a literal\<close>
  "int_isspace c =
     (let n = (of_char c :: nat) in (9 \<le> n \<and> n \<le> 13) \<or> n = 32 \<or> n = 133 \<or> n = 160)"

fun digits_ok :: "string \<Rightarrow> bool" where
  \<comment> \<open>decimal digits, with single underscores allowed between two digits\<close>
  "digits_ok [] = False"
| "digits_ok [c] = is_digit c"
| "digits_ok (c # d # cs) =
     (is_digit c \<and> (if d = CHR ''_'' then digits_ok cs else digits_ok (d # cs)))"

fun digits_val :: "int \<Rightarrow> string \<Rightarrow> int" where
  "digits_val acc [] = acc"
| "digits_val acc (c # cs) =
     (if c = CHR ''_'' then digits_val acc cs else digits_val (10 * acc + digit_val c) cs)"

definition py_int :: "string \<Rightarrow> exn + int" where
  \<comment> \<open>\<open>int(s)\<close> on a string: surrounding whitespace, an optional sign, decimal digits\<close>
  "py_int s =
     (let t = rev (dropWhile int_isspace (rev (dropWhile int_isspace s)));
          neg = (t \<noteq> [] \<and> hd t = CHR ''-'');
          body = (if t \<noteq> [] \<and> (hd t = CHR ''-'' \<or> hd t = CHR ''+'') then tl t else t)
      in if digits_ok body
         then Inr (if neg then - digits_val 0 body else digits_val 0 body)
         else Inl (ValueError s))"

fun str_nat :: "nat \<Rightarrow> string" where
  "str_nat n =
     (if n < 10 then [char_of (48 + n)] else str_nat (n div 10) @ [char_of (48 + n mod 10)])"

definition py_str :: "int \<Rightarrow> string" where
  \<comment> \<open>\<open>str(i)\<close>, which is what an f-string writes for an integer\<close>
  "py_str i = (if i < 0 then CHR ''-'' # str_nat (nat (- i)) else str_nat (nat i))"

section \<open>Values, diagnostics and the running totals\<close>

datatype pyval = PyNone | PyStr string | PyInt int

datatype severity = Info | Warning | Error

text \<open>
  One constructor for each logging call of \<open>parse_score\<close>, with the values its message
  is formatted from, in the order the message names them.
\<close>

datatype message =
    TieSetLaver string string "string list"
  | TieSetNonLaver string string "string list"
  | SmallScoreNextGen string string "string list"
  | BigScoreGrandSlam string string "string list"
  | BigScoreOlympic string string "string list"
  | NotInWhiteList string string
  | WinMarginLt2 string string
  | LosMarginLt2 string string
  | EqualDigits string string
  | Len3Unrecognized string string
  | HugeScore string string "string list"
  | Len4Tie string string string string
  | Len7Tie string string string string
  | UnhandledSetFormat string string
  | UnexpectedMatchScore string string "string list"
  | ParseScoreError string exn

type_synonym diagnostic = "severity \<times> message"

record tally =
  winner_sets_won :: int
  loser_sets_won :: int
  winner_games_won :: int
  loser_games_won :: int
  winner_tiebreaks_won :: int
  loser_tiebreaks_won :: int

definition tally0 :: tally where
  "tally0 = \<lparr>winner_sets_won = 0, loser_sets_won = 0, winner_games_won = 0,
             loser_games_won = 0, winner_tiebreaks_won = 0, loser_tiebreaks_won = 0\<rparr>"

section \<open>The outcome classifier\<close>

definition get_match_ret :: "string \<Rightarrow> string option" where
  "get_match_ret match_score =
     (let s = py_strip match_score
      in if s = [] then None
         else let up = py_upper s
           in if sublist ''W/O'' up \<or> sublist ''INV'' up \<or> sublist ''WALKOVER'' up
              then Some ''(W/O)''
              else if sublist ''WEA'' up then Some ''(WEA)''
              else if sublist ''RE'' up \<or> sublist ''RET'' up \<or> sublist ''DEF'' up
                      \<or> sublist ''UNP'' up
              then Some ''(RET)''
              else if sublist ''PLAYED AND UNFINISHED'' up
                      \<or> sublist ''PLAYED AND ABANDONED'' up \<or> sublist ''UNFINISHED'' up
              then Some ''(RET)''
              else None)"

section \<open>Decoding one set token\<close>

text \<open>
  Each branch of the loop body is a function of the tournament code, the match
  identifier, the list of all tokens (which the messages print), the token and the
  totals so far. It returns the diagnostics it logged, in order, and either the
  exception that \<open>int()\<close> raised or the new totals.
\<close>

type_synonym step = "diagnostic list \<times> (exn + tally)"

definition bracket_set :: "string \<Rightarrow> string \<Rightarrow> string list \<Rightarrow> string \<Rightarrow> tally \<Rightarrow> step" where
  "bracket_set tournament_code match_id match_score_array set_score t =
     ([if tournament_code = ''9210''
       then (Info, TieSetLaver match_id set_score match_score_array)
       else (Warning, TieSetNonLaver match_id set_score match_score_array)],
      Inr (t\<lparr>winner_sets_won := winner_sets_won t + 1,
              winner_games_won := winner_games_won t + 1,
              winner_tiebreaks_won := winner_tiebreaks_won t + 1\<rparr>))"

definition whitelist_log :: "string \<Rightarrow> string \<Rightarrow> string list \<Rightarrow> string \<Rightarrow> diagnostic list" where
  "whitelist_log tournament_code match_id match_score_array set_score =
     (let pair = take 2 set_score
      in if tournament_code = ''7696''
            \<and> pair \<in> set [''40'', ''41'', ''42'', ''04'', ''14'', ''24'']
         then [(Info, SmallScoreNextGen match_id set_score match_score_array)]
         else if pair \<in> set [''86'', ''97'', ''68'', ''79'']
                 \<and> tournament_code \<in> set [''580'', ''560'', ''540'', ''520'']
         then [(Info, BigScoreGrandSlam match_id set_score match_score_array)]
         else if pair \<in> set [''86'', ''97'', ''68'', ''79''] \<and> tournament_code \<in> set [''96'']
         then [(Warning, BigScoreOlympic match_id set_score match_score_array)]
         else if pair \<notin> set [''60'', ''61'', ''62'', ''63'', ''64'', ''75'', ''76'',
                               ''06'', ''16'', ''26'', ''36'', ''46'', ''57'', ''67'']
         then [(Error, NotInWhiteList match_id set_score)]
         else [])"

definition two_char_set :: "string \<Rightarrow> string \<Rightarrow> string list \<Rightarrow> string \<Rightarrow> tally \<Rightarrow> step" where
  "two_char_set tournament_code match_id match_score_array set_score t =
     (let pair = take 2 set_score;
          c0 = set_score ! 0;
          c1 = set_score ! 1;
          log = whitelist_log tournament_code match_id match_score_array set_score
      in if c0 > c1 then
           (case py_int [c0] of Inl e \<Rightarrow> (log, Inl e) | Inr g0 \<Rightarrow>
            (case py_int [c1] of Inl e \<Rightarrow> (log, Inl e) | Inr g1 \<Rightarrow>
              let t' = t\<lparr>winner_sets_won := winner_sets_won t + 1,
                          winner_games_won := winner_games_won t + g0,
                          loser_games_won := loser_games_won t + g1\<rparr>
              in if pair = ''76''
                 then (log, Inr (t'\<lparr>winner_tiebreaks_won := winner_tiebreaks_won t' + 1\<rparr>))
                 else if pair = ''43'' \<and> tournament_code = ''7696''
                 then (log, Inr (t'\<lparr>winner_tiebreaks_won := winner_tiebreaks_won t' + 1\<rparr>))
                 else if g0 - g1 < 2
                 then (log @ [(Error, WinMarginLt2 match_id set_score)], Inr t')
                 else (log, Inr t')))
         else if c0 < c1 then
           (case py_int [c0] of Inl e \<Rightarrow> (log, Inl e) | Inr g0 \<Rightarrow>
            (case py_int [c1] of Inl e \<Rightarrow> (log, Inl e) | Inr g1 \<Rightarrow>
              let t' = t\<lparr>loser_sets_won := loser_sets_won t + 1,
                          winner_games_won := winner_games_won t + g0,
                          loser_games_won := loser_games_won t + g1\<rparr>
              in if pair = ''67''
                 then (log, Inr (t'\<lparr>loser_tiebreaks_won := loser_tiebreaks_won t' + 1\<rparr>))
                 else if pair = ''34'' \<and> tournament_code = ''7696''
                 then (log, Inr (t'\<lparr>loser_tiebreaks_won := loser_tiebreaks_won t' + 1\<rparr>))
                 else if g1 - g0 < 2
                 then (log @ [(Error, LosMarginLt2 match_id set_score)], Inr t')
                 else (log, Inr t')))
         else (log @ [(Error, EqualDigits match_id set_score)], Inr t))"

definition three_char_set :: "string \<Rightarrow> string \<Rightarrow> tally \<Rightarrow> step" where
  "three_char_set match_id set_score t =
     (if set_score \<in> set [''810'', ''911''] then
        (case (if set_score = ''911'' then py_int (take 2 set_score) else Inr 10) of
           Inl e \<Rightarrow> ([], Inl e)
         | Inr lg \<Rightarrow>
            (case py_int [last set_score] of
               Inl e \<Rightarrow> ([], Inl e)
             | Inr wg \<Rightarrow>
                ([], Inr (t\<lparr>loser_sets_won := loser_sets_won t + 1,
                             loser_games_won := loser_games_won t + lg,
                             winner_games_won := winner_games_won t + wg\<rparr>))))
      else if set_score \<in> set [''108'', ''106'', ''107'', ''119''] then
        (let t' = t\<lparr>winner_sets_won := winner_sets_won t + 1\<rparr>
         in if set_score = ''108''
            then ([], Inr (t'\<lparr>winner_games_won := winner_games_won t' + 10,
                               loser_games_won := loser_games_won t' + 8\<rparr>))
            else if set_score = ''106''
            then ([], Inr (t'\<lparr>winner_games_won := winner_games_won t' + 10,
                               loser_games_won := loser_games_won t' + 6\<rparr>))
            else if set_score = ''107''
            then ([], Inr (t'\<lparr>winner_games_won := winner_games_won t' + 10,
                               loser_games_won := loser_games_won t' + 7\<rparr>))
            else if set_score = ''119''
            then ([], Inr (t'\<lparr>winner_games_won := winner_games_won t' + 11,
                               loser_games_won := loser_games_won t' + 9\<rparr>))
            else ([], Inr t'))
      else ([(Error, Len3Unrecognized match_id set_score)], Inr t))"

definition four_char_set :: "string \<Rightarrow> string \<Rightarrow> string list \<Rightarrow> string \<Rightarrow> tally \<Rightarrow> step" where
  "four_char_set tournament_code match_id match_score_array set_score t =
     (let log = (if tournament_code \<notin> set [''580'', ''560'', ''540'', ''520'']
                    \<or> set_score > ''2200''
                 then [(Warning, HugeScore match_id set_score match_score_array)] else []);
          left = take 2 set_score;
          right = drop 2 set_score
      in if left > right then
           (case py_int left of Inl e \<Rightarrow> (log, Inl e) | Inr gl \<Rightarrow>
            (case py_int right of Inl e \<Rightarrow> (log, Inl e) | Inr gr \<Rightarrow>
              let t' = t\<lparr>winner_sets_won := winner_sets_won t + 1,
                          winner_games_won := winner_games_won t + gl,
                          loser_games_won := loser_games_won t + gr\<rparr>
              in if gl - gr < 2
                 then (log @ [(Error, WinMarginLt2 match_id set_score)], Inr t')
                 else (log, Inr t')))
         else if right > left then
           (case py_int left of Inl e \<Rightarrow> (log, Inl e) | Inr gl \<Rightarrow>
            (case py_int right of Inl e \<Rightarrow> (log, Inl e) | Inr gr \<Rightarrow>
              let t' = t\<lparr>loser_sets_won := loser_sets_won t + 1,
                          winner_games_won := winner_games_won t + gl,
                          loser_games_won := loser_games_won t + gr\<rparr>
              in if gr - gl < 2
                 then (log @ [(Error, LosMarginLt2 match_id set_score)], Inr t')
                 else (log, Inr t')))
         else (log @ [(Error, Len4Tie match_id left right set_score)], Inr t))"

definition long_set :: "string \<Rightarrow> string \<Rightarrow> tally \<Rightarrow> step" where
  "long_set match_id set_score t =
     (let left = take 2 set_score;
          right = take 2 (drop 2 set_score)
      in if left > right then
           (case py_int left of Inl e \<Rightarrow> ([], Inl e) | Inr gl \<Rightarrow>
            (case py_int right of Inl e \<Rightarrow> ([], Inl e) | Inr gr \<Rightarrow>
              ([], Inr (t\<lparr>winner_sets_won := winner_sets_won t + 1,
                           winner_games_won := winner_games_won t + gl,
                           loser_games_won := loser_games_won t + gr,
                           winner_tiebreaks_won := winner_tiebreaks_won t + 1\<rparr>))))
         else if left < right then
           (case py_int left of Inl e \<Rightarrow> ([], Inl e) | Inr gl \<Rightarrow>
            (case py_int right of Inl e \<Rightarrow> ([], Inl e) | Inr gr \<Rightarrow>
              ([], Inr (t\<lparr>loser_sets_won := loser_sets_won t + 1,
                           winner_games_won := winner_games_won t + gl,
                           loser_games_won := loser_games_won t + gr,
                           loser_tiebreaks_won := loser_tiebreaks_won t + 1\<rparr>))))
         else ([(Error, Len7Tie match_id left right set_score)], Inr t))"

definition decode_set :: "string \<Rightarrow> string \<Rightarrow> string list \<Rightarrow> string \<Rightarrow> tally \<Rightarrow> step" where
  \<comment> \<open>the body of the loop over the tokens\<close>
  "decode_set tournament_code match_id match_score_array set_score t =
     (if CHR ''['' \<in> set set_score
      then bracket_set tournament_code match_id match_score_array set_score t
      else if length set_score = 2
      then two_char_set tournament_code match_id match_score_array set_score t
      else if length set_score = 3 then three_char_set match_id set_score t
      else if length set_score = 4
      then four_char_set tournament_code match_id match_score_array set_score t
      else if length set_score \<ge> 7 then long_set match_id set_score t
      else ([(Error, UnhandledSetFormat match_id set_score)], Inr t))"

fun decode_sets :: "string \<Rightarrow> string \<Rightarrow> string list \<Rightarrow> string list \<Rightarrow> tally \<Rightarrow> step" where
  \<comment> \<open>the loop: an exception leaves it at once, with what was logged until then\<close>
  "decode_sets tournament_code match_id match_score_array [] t = ([], Inr t)"
| "decode_sets tournament_code match_id match_score_array (set_score # rest) t =
     (case decode_set tournament_code match_id match_score_array set_score t of
        (log, Inl e) \<Rightarrow> (log, Inl e)
      | (log, Inr t') \<Rightarrow>
          (case decode_sets tournament_code match_id match_score_array rest t' of
             (log', r) \<Rightarrow> (log @ log', r)))"

section \<open>The whole decoder\<close>

definition set_count_log :: "string \<Rightarrow> string list \<Rightarrow> tally \<Rightarrow> diagnostic list" where
  \<comment> \<open>the check of the final set count against the allowed match scores\<close>
  "set_count_log match_id match_score_array t =
     (let score = py_str (winner_sets_won t) @ py_str (loser_sets_won t)
      in if score \<notin> {''30'', ''31'', ''32'', ''21'', ''20''}
         then [(Error, UnexpectedMatchScore score match_id match_score_array)]
         else [])"

definition tally_result :: "tally \<Rightarrow> pyval list" where
  "tally_result t =
     [PyNone, PyInt (winner_sets_won t), PyInt (loser_sets_won t),
      PyInt (winner_games_won t), PyInt (loser_games_won t),
      PyInt (winner_tiebreaks_won t), PyInt (loser_tiebreaks_won t)]"

definition parse_score_try ::
  "string \<Rightarrow> string \<Rightarrow> string \<Rightarrow> diagnostic list \<times> (exn + pyval list)" where
  \<comment> \<open>the block under \<open>try\<close>\<close>
  "parse_score_try match_score match_id tournament_code =
     (case get_match_ret match_score of
        Some match_ret \<Rightarrow>
          ([], Inr [PyStr match_ret, PyNone, PyNone, PyNone, PyNone, PyNone, PyNone])
      | None \<Rightarrow>
          (let match_score_array = py_split match_score
           in case decode_sets tournament_code match_id match_score_array
                     match_score_array tally0 of
                (log, Inl e) \<Rightarrow> (log, Inl e)
              | (log, Inr t) \<Rightarrow>
                  (log @ set_count_log match_id match_score_array t, Inr (tally_result t))))"

definition parse_score :: "string \<Rightarrow> string \<Rightarrow> string \<Rightarrow> pyval list \<times> diagnostic list" where
  \<comment> \<open>the returned list, and the diagnostics logged during the call, in order\<close>
  "parse_score match_score match_id tournament_code =
     (case parse_score_try match_score match_id tournament_code of
        (log, Inr result) \<Rightarrow> (result, log)
      | (log, Inl e) \<Rightarrow>
          ([PyNone, PyNone, PyNone, PyNone, PyNone, PyNone, PyNone],
           log @ [(Error, ParseScoreError match_id e)]))"

section \<open>Reading the returned list\<close>

text \<open>
  The returned list holds the outcome flag at position 0 and the six numeric fields
  after it. A field is unset when it is \<open>None\<close> and set when it is an integer.
\<close>

definition outcome_flag :: "pyval list \<Rightarrow> pyval" where
  "outcome_flag r = r ! 0"

definition numeric_fields :: "pyval list \<Rightarrow> pyval list" where
  "numeric_fields r = drop 1 r"

definition field_unset :: "pyval \<Rightarrow> bool" where
  "field_unset v = (v = PyNone)"

definition field_set :: "pyval \<Rightarrow> bool" where
  "field_set v = (case v of PyInt n \<Rightarrow> True | _ \<Rightarrow> False)"

definition sets_step :: "tally \<Rightarrow> tally \<Rightarrow> bool" where
  \<comment> \<open>at most one of the two set counters grows, and by one\<close>
  "sets_step t t' =
     (winner_sets_won t' = winner_sets_won t \<and> loser_sets_won t' = loser_sets_won t
      \<or> winner_sets_won t' = winner_sets_won t + 1 \<and> loser_sets_won t' = loser_sets_won t
      \<or> winner_sets_won t' = winner_sets_won t \<and> loser_sets_won t' = loser_sets_won t + 1)"

definition contains_ci :: "string \<Rightarrow> string \<Rightarrow> bool" where
  \<comment> \<open>the case-insensitive substring test of the classifier's rules: the pattern, written
      in capitals, occurs in the upper-cased raw text\<close>
  "contains_ci text pat = sublist pat (py_upper text)"

declare str_nat.simps [simp del]

section \<open>Evaluating the builtins\<close>

lemma digit_not_special:
  assumes "is_digit c"
  shows "\<not> int_isspace c" "c \<noteq> CHR ''-''" "c \<noteq> CHR ''+''" "c \<noteq> CHR ''_''"
    "c \<noteq> CHR ''[''"
  using assms by (auto simp: is_digit_def int_isspace_def)

lemma py_int_digit: "is_digit c \<Longrightarrow> py_int [c] = Inr (digit_val c)"
  by (simp add: py_int_def digit_not_special)

lemma py_int_not_digit: "\<not> is_digit c \<Longrightarrow> py_int [c] = Inl (ValueError [c])"
proof (cases "int_isspace c")
  case True
  then show ?thesis by (simp add: py_int_def)
next
  case False
  assume nd: "\<not> is_digit c"
  show ?thesis
  proof (cases "c = CHR ''-'' \<or> c = CHR ''+''")
    case True
    with False show ?thesis by (simp add: py_int_def Let_def)
  next
    case sign: False
    with False nd show ?thesis by (simp add: py_int_def Let_def)
  qed
qed

lemma digit_val_less: "digit_val a < digit_val b \<longleftrightarrow> a < b"
  by (simp add: digit_val_def less_char_def)

lemma digit_chars:
  "is_digit CHR ''0''" "is_digit CHR ''1''" "is_digit CHR ''2''" "is_digit CHR ''3''"
  "is_digit CHR ''4''" "is_digit CHR ''5''" "is_digit CHR ''6''" "is_digit CHR ''7''"
  "is_digit CHR ''8''" "is_digit CHR ''9''"
  by (simp_all add: is_digit_def)

lemma digit_vals:
  "digit_val CHR ''0'' = 0" "digit_val CHR ''1'' = 1" "digit_val CHR ''2'' = 2"
  "digit_val CHR ''3'' = 3" "digit_val CHR ''4'' = 4" "digit_val CHR ''5'' = 5"
  "digit_val CHR ''6'' = 6" "digit_val CHR ''7'' = 7" "digit_val CHR ''8'' = 8"
  "digit_val CHR ''9'' = 9"
  by (simp_all add: digit_val_def)

lemma length_two: "length s = 2 \<Longrightarrow> \<exists>a b. s = [a, b]"
  by (cases s; cases "tl s") auto

section \<open>The three ways out of \<open>parse_score\<close>\<close>

lemma parse_score_not_played:
  "get_match_ret s = Some r \<Longrightarrow>
   parse_score s mid code = ([PyStr r, PyNone, PyNone, PyNone, PyNone, PyNone, PyNone], [])"
  by (simp add: parse_score_def parse_score_try_def)

lemma parse_score_played:
  "get_match_ret s = None \<Longrightarrow>
   decode_sets code mid (py_split s) (py_split s) tally0 = (log, Inr t) \<Longrightarrow>
   parse_score s mid code = (tally_result t, log @ set_count_log mid (py_split s) t)"
  by (simp add: parse_score_def parse_score_try_def)

lemma parse_score_fault:
  "get_match_ret s = None \<Longrightarrow>
   decode_sets code mid (py_split s) (py_split s) tally0 = (log, Inl e) \<Longrightarrow>
   parse_score s mid code =
     ([PyNone, PyNone, PyNone, PyNone, PyNone, PyNone, PyNone],
      log @ [(Error, ParseScoreError mid e)])"
  by (simp add: parse_score_def parse_score_try_def)

section \<open>Single tokens\<close>

lemma decode_set_two:
  "CHR ''['' \<notin> set s \<Longrightarrow> length s = 2 \<Longrightarrow>
   decode_set code mid arr s t = two_char_set code mid arr s t"
  by (simp add: decode_set_def)

lemma two_char_set_win:
  assumes "is_digit a" "is_digit b" "b < a"
  shows "two_char_set code mid arr [a, b] t =
     (let t' = t\<lparr>winner_sets_won := winner_sets_won t + 1,
                 winner_games_won := winner_games_won t + digit_val a,
                 loser_games_won := loser_games_won t + digit_val b\<rparr>;
          log = whitelist_log code mid arr [a, b]
      in if [a, b] = ''76'' \<or> [a, b] = ''43'' \<and> code = ''7696''
         then (log, Inr (t'\<lparr>winner_tiebreaks_won := winner_tiebreaks_won t + 1\<rparr>))
         else if digit_val a - digit_val b < 2
         then (log @ [(Error, WinMarginLt2 mid [a, b])], Inr t')
         else (log, Inr t'))"
  using assms by (auto simp: two_char_set_def py_int_digit Let_def)

lemma two_char_set_los:
  assumes "is_digit a" "is_digit b" "a < b"
  shows "two_char_set code mid arr [a, b] t =
     (let t' = t\<lparr>loser_sets_won := loser_sets_won t + 1,
                 winner_games_won := winner_games_won t + digit_val a,
                 loser_games_won := loser_games_won t + digit_val b\<rparr>;
          log = whitelist_log code mid arr [a, b]
      in if [a, b] = ''67'' \<or> [a, b] = ''34'' \<and> code = ''7696''
         then (log, Inr (t'\<lparr>loser_tiebreaks_won := loser_tiebreaks_won t + 1\<rparr>))
         else if digit_val b - digit_val a < 2
         then (log @ [(Error, LosMarginLt2 mid [a, b])], Inr t')
         else (log, Inr t'))"
  using assms by (auto simp: two_char_set_def py_int_digit Let_def)

lemma two_char_tiebreaks:
  assumes "two_char_set code mid arr [a, b] t = (log, Inr t')"
  shows "winner_tiebreaks_won t' = winner_tiebreaks_won t
            + (if [a, b] = ''76'' \<or> [a, b] = ''43'' \<and> code = ''7696'' then 1 else 0)"
    and "loser_tiebreaks_won t' = loser_tiebreaks_won t
            + (if [a, b] = ''67'' \<or> [a, b] = ''34'' \<and> code = ''7696'' then 1 else 0)"
  using assms
  by (auto simp: two_char_set_def Let_def split: if_splits sum.splits)

lemma decode_set_76:
  "decode_set code mid arr ''76'' t =
     ([], Inr (t\<lparr>winner_sets_won := winner_sets_won t + 1,
                  winner_games_won := winner_games_won t + 7,
                  loser_games_won := loser_games_won t + 6,
                  winner_tiebreaks_won := winner_tiebreaks_won t + 1\<rparr>))"
  by (simp add: decode_set_def two_char_set_def whitelist_log_def py_int_digit
      digit_chars digit_vals)

lemma decode_set_67:
  "decode_set code mid arr ''67'' t =
     ([], Inr (t\<lparr>loser_sets_won := loser_sets_won t + 1,
                  winner_games_won := winner_games_won t + 6,
                  loser_games_won := loser_games_won t + 7,
                  loser_tiebreaks_won := loser_tiebreaks_won t + 1\<rparr>))"
  by (simp add: decode_set_def two_char_set_def whitelist_log_def py_int_digit
      digit_chars digit_vals)

lemma decode_set_36:
  "decode_set code mid arr ''36'' t =
     ([], Inr (t\<lparr>loser_sets_won := loser_sets_won t + 1,
                  winner_games_won := winner_games_won t + 3,
                  loser_games_won := loser_games_won t + 6\<rparr>))"
  by (simp add: decode_set_def two_char_set_def whitelist_log_def py_int_digit
      digit_chars digit_vals)

lemma decode_set_43:
  "decode_set code mid arr ''43'' t =
     (if code = ''7696''
      then ([(Error, NotInWhiteList mid ''43'')],
            Inr (t\<lparr>winner_sets_won := winner_sets_won t + 1,
                     winner_games_won := winner_games_won t + 4,
                     loser_games_won := loser_games_won t + 3,
                     winner_tiebreaks_won := winner_tiebreaks_won t + 1\<rparr>))
      else ([(Error, NotInWhiteList mid ''43''), (Error, WinMarginLt2 mid ''43'')],
            Inr (t\<lparr>winner_sets_won := winner_sets_won t + 1,
                     winner_games_won := winner_games_won t + 4,
                     loser_games_won := loser_games_won t + 3\<rparr>)))"
  by (simp add: decode_set_def two_char_set_def whitelist_log_def py_int_digit
      digit_chars digit_vals Let_def)

lemma decode_set_34:
  "decode_set code mid arr ''34'' t =
     (if code = ''7696''
      then ([(Error, NotInWhiteList mid ''34'')],
            Inr (t\<lparr>loser_sets_won := loser_sets_won t + 1,
                     winner_games_won := winner_games_won t + 3,
                     loser_games_won := loser_games_won t + 4,
                     loser_tiebreaks_won := loser_tiebreaks_won t + 1\<rparr>))
      else ([(Error, NotInWhiteList mid ''34''), (Error, LosMarginLt2 mid ''34'')],
            Inr (t\<lparr>loser_sets_won := loser_sets_won t + 1,
                     winner_games_won := winner_games_won t + 3,
                     loser_games_won := loser_games_won t + 4\<rparr>)))"
  by (simp add: decode_set_def two_char_set_def whitelist_log_def py_int_digit
      digit_chars digit_vals Let_def)

lemma decode_set_911:
  "decode_set code mid arr ''911'' t =
     ([], Inr (t\<lparr>loser_sets_won := loser_sets_won t + 1,
                  loser_games_won := loser_games_won t + 91,
                  winner_games_won := winner_games_won t + 1\<rparr>))"
  by (simp add: decode_set_def three_char_set_def py_int_def int_isspace_def is_digit_def
      digit_val_def)

lemma py_str_small: "py_str 0 = ''0''" "py_str 1 = ''1''" "py_str 2 = ''2''" "py_str 3 = ''3''"
  by code_simp+

lemma get_match_ret_examples:
  "get_match_ret ''911'' = None" "get_match_ret ''76 36 76'' = None"
  "get_match_ret ''6a'' = None" "get_match_ret ''64 6a 75'' = None"
  "get_match_ret ''64 75'' = None" "get_match_ret ''[10-8]'' = None"
  "get_match_ret ''RET'' = Some ''(RET)''"
  by code_simp+

lemma py_split_examples:
  "py_split ''911'' = [''911'']" "py_split ''76 36 76'' = [''76'', ''36'', ''76'']"
  "py_split ''6a'' = [''6a'']" "py_split ''64 6a 75'' = [''64'', ''6a'', ''75'']"
  "py_split ''64 75'' = [''64'', ''75'']" "py_split ''[10-8]'' = [''[10-8]'']"
  by code_simp+

lemma decode_set_6a:
  "decode_set code mid arr ''6a'' t = ([(Error, NotInWhiteList mid ''6a'')], Inl (ValueError ''a''))"
  by (simp add: decode_set_def two_char_set_def whitelist_log_def py_int_digit py_int_not_digit
      digit_chars is_digit_def Let_def)

lemma decode_set_64:
  "decode_set code mid arr ''64'' t =
     ([], Inr (t\<lparr>winner_sets_won := winner_sets_won t + 1,
                  winner_games_won := winner_games_won t + 6,
                  loser_games_won := loser_games_won t + 4\<rparr>))"
  by (simp add: decode_set_def two_char_set_def whitelist_log_def py_int_digit
      digit_chars digit_vals)

lemma decode_set_75:
  "decode_set code mid arr ''75'' t =
     ([], Inr (t\<lparr>winner_sets_won := winner_sets_won t + 1,
                  winner_games_won := winner_games_won t + 7,
                  loser_games_won := loser_games_won t + 5\<rparr>))"
  by (simp add: decode_set_def two_char_set_def whitelist_log_def py_int_digit
      digit_chars digit_vals)

lemma decode_sets_fault:
  assumes "tok \<in> set toks" and "\<And>t. isl (snd (decode_set code mid arr tok t))"
  shows "isl (snd (decode_sets code mid arr toks t))"
  using assms(1)
proof (induction toks arbitrary: t)
  case Nil
  then show ?case by simp
next
  case (Cons x xs)
  obtain log r where d: "decode_set code mid arr x t = (log, r)" by (cases "decode_set code mid arr x t")
  show ?case
  proof (cases r)
    case (Inl e)
    with d show ?thesis by simp
  next
    case (Inr t')
    with d assms(2)[of t] have "x \<noteq> tok" by auto
    with Cons.prems have "tok \<in> set xs" by auto
    from Cons.IH[OF this, of t'] d Inr show ?thesis
      by (cases "decode_sets code mid arr xs t'") simp
  qed
qed

lemma parse_score_fault_result:
  assumes "get_match_ret s = None" "isl (snd (decode_sets code mid (py_split s) (py_split s) tally0))"
  shows "fst (parse_score s mid code) = [PyNone, PyNone, PyNone, PyNone, PyNone, PyNone, PyNone]"
proof -
  obtain log r where d: "decode_sets code mid (py_split s) (py_split s) tally0 = (log, r)"
    by (cases "decode_sets code mid (py_split s) (py_split s) tally0")
  with assms(2) obtain e where "r = Inl e" by (cases r) auto
  with d parse_score_fault[OF assms(1), of code mid log e] show ?thesis by simp
qed

section \<open>The margin check on two-digit tokens\<close>

lemma decode_sets_append:
  "decode_sets code mid arr (xs @ ys) t =
     (case decode_sets code mid arr xs t of
        (l, Inl e) \<Rightarrow> (l, Inl e)
      | (l, Inr t') \<Rightarrow>
          (case decode_sets code mid arr ys t' of (l', r) \<Rightarrow> (l @ l', r)))"
  by (induction xs arbitrary: t) (auto split: prod.splits sum.splits)

lemma decode_sets_around:
  assumes "decode_sets code mid arr pre t0 = (log1, Inr t1)"
    and "decode_set code mid arr tok t1 = (logtok, Inr t2)"
    and "decode_sets code mid arr post t2 = (log2, Inr t3)"
  shows "decode_sets code mid arr (pre @ tok # post) t0 = (log1 @ logtok @ log2, Inr t3)"
  using assms by (simp add: decode_sets_append)

lemma decode_set_margin:
  assumes "is_digit a" "is_digit b" "a \<noteq> b"
    and "\<bar>digit_val a - digit_val b\<bar> < 2"
    and "[a, b] \<noteq> ''76''" "[a, b] \<noteq> ''67''"
    and "code = ''7696'' \<longrightarrow> [a, b] \<noteq> ''43'' \<and> [a, b] \<noteq> ''34''"
  shows "decode_set code mid arr [a, b] t =
     (whitelist_log code mid arr [a, b]
        @ [(Error, if digit_val b < digit_val a
                   then WinMarginLt2 mid [a, b] else LosMarginLt2 mid [a, b])],
      Inr (if digit_val b < digit_val a
           then t\<lparr>winner_sets_won := winner_sets_won t + 1,
                   winner_games_won := winner_games_won t + digit_val a,
                   loser_games_won := loser_games_won t + digit_val b\<rparr>
           else t\<lparr>loser_sets_won := loser_sets_won t + 1,
                   winner_games_won := winner_games_won t + digit_val a,
                   loser_games_won := loser_games_won t + digit_val b\<rparr>))"
proof -
  have nb: "CHR ''['' \<notin> set [a, b]"
    using assms(1,2) digit_not_special(5) by auto
  show ?thesis
  proof (cases "b < a")
    case True
    then have "digit_val b < digit_val a" by (simp add: digit_val_less)
    with True assms show ?thesis
      by (auto simp: decode_set_two[OF nb] two_char_set_win Let_def)
  next
    case False
    with assms(3) have lt: "a < b" by simp
    then have "digit_val a < digit_val b" by (simp add: digit_val_less)
    with lt assms show ?thesis
      by (auto simp: decode_set_two[OF nb] two_char_set_los Let_def)
  qed
qed

lemma examples_65:
  "get_match_ret ''65'' = None" "py_split ''65'' = [''65'']"
  "get_match_ret ''64 65 75'' = None" "py_split ''64 65 75'' = [''64'', ''65'', ''75'']"
  by code_simp+

text \<open>
  C7. A token of two distinct digits whose winning margin is below two games, and
  which is not a tiebreak pair (\<open>76\<close> or \<open>67\<close>; \<open>43\<close> or \<open>34\<close> under the NextGen code
  \<open>7696\<close>), is decoded without fault: after whatever the whitelist check logged, one
  Error diagnostic about the margin is logged, the set goes to the side with the
  greater digit, and both game counts grow by their digits. For \<open>parse_score\<close> itself:
  when the text is on the played path, such a token is among its tokens, and the tokens
  before and after it are decoded without fault, the returned list is the list of the
  totals that the tokens after it reach from the totals with this token's set and
  games added, and the diagnostics hold the margin Error between those of the tokens
  before and those of the tokens after.
\<close>

theorem margin_flagged_not_discarded:
  assumes "is_digit a" "is_digit b" "a \<noteq> b"
    and "\<bar>digit_val a - digit_val b\<bar> < 2"
    and "[a, b] \<noteq> ''76''" "[a, b] \<noteq> ''67''"
    and "code = ''7696'' \<longrightarrow> [a, b] \<noteq> ''43'' \<and> [a, b] \<noteq> ''34''"
  shows "decode_set code mid arr [a, b] t =
     (if digit_val b < digit_val a
      then (whitelist_log code mid arr [a, b] @ [(Error, WinMarginLt2 mid [a, b])],
            Inr (t\<lparr>winner_sets_won := winner_sets_won t + 1,
                     winner_games_won := winner_games_won t + digit_val a,
                     loser_games_won := loser_games_won t + digit_val b\<rparr>))
      else (whitelist_log code mid arr [a, b] @ [(Error, LosMarginLt2 mid [a, b])],
            Inr (t\<lparr>loser_sets_won := loser_sets_won t + 1,
                     winner_games_won := winner_games_won t + digit_val a,
                     loser_games_won := loser_games_won t + digit_val b\<rparr>)))
   \<and> (get_match_ret s = None \<and> py_split s = pre @ [a, b] # post
        \<and> decode_sets code mid (py_split s) pre tally0 = (log1, Inr t1)
        \<and> decode_sets code mid (py_split s) post
             (if digit_val b < digit_val a
              then t1\<lparr>winner_sets_won := winner_sets_won t1 + 1,
                      winner_games_won := winner_games_won t1 + digit_val a,
                      loser_games_won := loser_games_won t1 + digit_val b\<rparr>
              else t1\<lparr>loser_sets_won := loser_sets_won t1 + 1,
                      winner_games_won := winner_games_won t1 + digit_val a,
                      loser_games_won := loser_games_won t1 + digit_val b\<rparr>)
             = (log2, Inr t3)
        \<longrightarrow> parse_score s mid code =
             (tally_result t3,
              log1 @ whitelist_log code mid (py_split s) [a, b]
                @ [(Error, if digit_val b < digit_val a
                           then WinMarginLt2 mid [a, b] else LosMarginLt2 mid [a, b])]
                @ log2 @ set_count_log mid (py_split s) t3))"
proof -
  note tok = decode_set_margin[OF assms]
  have one: "decode_set code mid arr [a, b] t =
     (if digit_val b < digit_val a
      then (whitelist_log code mid arr [a, b] @ [(Error, WinMarginLt2 mid [a, b])],
            Inr (t\<lparr>winner_sets_won := winner_sets_won t + 1,
                     winner_games_won := winner_games_won t + digit_val a,
                     loser_games_won := loser_games_won t + digit_val b\<rparr>))
      else (whitelist_log code mid arr [a, b] @ [(Error, LosMarginLt2 mid [a, b])],
            Inr (t\<lparr>loser_sets_won := loser_sets_won t + 1,
                     winner_games_won := winner_games_won t + digit_val a,
                     loser_games_won := loser_games_won t + digit_val b\<rparr>)))"
    by (simp add: tok)
  have whole: "parse_score s mid code =
             (tally_result t3,
              log1 @ whitelist_log code mid (py_split s) [a, b]
                @ [(Error, if digit_val b < digit_val a
                           then WinMarginLt2 mid [a, b] else LosMarginLt2 mid [a, b])]
                @ log2 @ set_count_log mid (py_split s) t3)"
    if played: "get_match_ret s = None" and toks: "py_split s = pre @ [a, b] # post"
      and before: "decode_sets code mid (py_split s) pre tally0 = (log1, Inr t1)"
      and after: "decode_sets code mid (py_split s) post
             (if digit_val b < digit_val a
              then t1\<lparr>winner_sets_won := winner_sets_won t1 + 1,
                      winner_games_won := winner_games_won t1 + digit_val a,
                      loser_games_won := loser_games_won t1 + digit_val b\<rparr>
              else t1\<lparr>loser_sets_won := loser_sets_won t1 + 1,
                      winner_games_won := winner_games_won t1 + digit_val a,
                      loser_games_won := loser_games_won t1 + digit_val b\<rparr>)
             = (log2, Inr t3)"
  proof -
    from decode_sets_around[OF before tok[of mid "py_split s" t1] after]
    have "decode_sets code mid (py_split s) (pre @ [a, b] # post) tally0 =
       (log1 @ (whitelist_log code mid (py_split s) [a, b]
          @ [(Error, if digit_val b < digit_val a
                     then WinMarginLt2 mid [a, b] else LosMarginLt2 mid [a, b])]) @ log2,
        Inr t3)" .
    then have "decode_sets code mid (py_split s) (py_split s) tally0 =
       (log1 @ (whitelist_log code mid (py_split s) [a, b]
          @ [(Error, if digit_val b < digit_val a
                     then WinMarginLt2 mid [a, b] else LosMarginLt2 mid [a, b])]) @ log2,
        Inr t3)"
      using toks by (simp only:)
    from parse_score_played[OF played this] show ?thesis by (simp only: append_assoc)
  qed
  from one whole show ?thesis by blast
qed

theorem margin_flagged_not_discarded_witness:
  "decode_set ''7696'' ''m'' [''45''] ''45'' tally0 =
     ([(Error, NotInWhiteList ''m'' ''45''), (Error, LosMarginLt2 ''m'' ''45'')],
      Inr (tally0\<lparr>loser_sets_won := 1, winner_games_won := 4, loser_games_won := 5\<rparr>))
   \<and> parse_score ''65'' ''m'' ''250'' =
     ([PyNone, PyInt 1, PyInt 0, PyInt 6, PyInt 5, PyInt 0, PyInt 0],
      [(Error, NotInWhiteList ''m'' ''65''), (Error, WinMarginLt2 ''m'' ''65''),
       (Error, UnexpectedMatchScore ''10'' ''m'' [''65''])])
   \<and> parse_score ''64 65 75'' ''m'' ''250'' =
     ([PyNone, PyInt 3, PyInt 0, PyInt 19, PyInt 14, PyInt 0, PyInt 0],
      [(Error, NotInWhiteList ''m'' ''65''), (Error, WinMarginLt2 ''m'' ''65'')])"
proof -
  have d: "is_digit CHR ''6''" "is_digit CHR ''5''" "is_digit CHR ''4''"
    by (simp_all add: digit_chars)
  have pre: "decode_sets ''250'' ''m'' (py_split ''64 65 75'') [''64''] tally0 =
       ([], Inr (tally0\<lparr>winner_sets_won := 1, winner_games_won := 6, loser_games_won := 4\<rparr>))"
    by (simp add: decode_set_64 tally0_def)
  have post: "decode_sets ''250'' ''m'' (py_split ''64 65 75'') [''75'']
       \<lparr>winner_sets_won = 2, loser_sets_won = 0, winner_games_won = 12,
             loser_games_won = 9, winner_tiebreaks_won = 0, loser_tiebreaks_won = 0\<rparr> =
       ([], Inr \<lparr>winner_sets_won = 3, loser_sets_won = 0, winner_games_won = 19,
             loser_games_won = 14, winner_tiebreaks_won = 0, loser_tiebreaks_won = 0\<rparr>)"
    by (simp add: decode_set_75)
  from margin_flagged_not_discarded
          [of "CHR ''4''" "CHR ''5''" "''7696''" "''m''" "[''45'']" tally0]
    margin_flagged_not_discarded
          [of "CHR ''6''" "CHR ''5''" "''250''" "''m''" "[]" tally0 "''65''" "[]" "[]" "[]"
              tally0 "[]"
              "\<lparr>winner_sets_won = 1, loser_sets_won = 0, winner_games_won = 6,
                 loser_games_won = 5, winner_tiebreaks_won = 0, loser_tiebreaks_won = 0\<rparr>"]
    margin_flagged_not_discarded
          [of "CHR ''6''" "CHR ''5''" "''250''" "''m''" "[]" tally0 "''64 65 75''"
              "[''64'']" "[''75'']" "[]"
              "tally0\<lparr>winner_sets_won := 1, winner_games_won := 6, loser_games_won := 4\<rparr>"
              "[]"
              "\<lparr>winner_sets_won = 3, loser_sets_won = 0, winner_games_won = 19,
                 loser_games_won = 14, winner_tiebreaks_won = 0, loser_tiebreaks_won = 0\<rparr>"]
    pre post
  show ?thesis
    by (simp add: digit_chars digit_vals whitelist_log_def tally0_def examples_65
        tally_result_def set_count_log_def py_str_small)
qed


section \<open>The three-character token 911\<close>

text \<open>
  C1. The claim is that \<open>911\<close> adds 11 to the loser's games. The source takes
  \<open>int(set_score[0:2])\<close>, the first two characters \<open>91\<close>, so the decoder adds 91:
  for every match identifier and tournament code, decoding the text \<open>911\<close> returns
  loser sets 1, winner games 1 and loser games 91.
\<close>

theorem parse_score_911:
  "parse_score ''911'' match_id tournament_code =
     ([PyNone, PyInt 0, PyInt 1, PyInt 1, PyInt 91, PyInt 0, PyInt 0],
      [(Error, UnexpectedMatchScore ''01'' match_id [''911''])])"
proof -
  have "decode_sets tournament_code match_id (py_split ''911'') (py_split ''911'') tally0 =
     ([], Inr \<lparr>winner_sets_won = 0, loser_sets_won = 1, winner_games_won = 1,
             loser_games_won = 91, winner_tiebreaks_won = 0, loser_tiebreaks_won = 0\<rparr>)"
    by (simp add: py_split_examples decode_set_911 tally0_def)
  from parse_score_played[OF get_match_ret_examples(1) this] show ?thesis
    by (simp add: tally_result_def set_count_log_def py_str_small py_split_examples)
qed

section \<open>A two-character token with a character that is no digit\<close>

text \<open>
  C10. The token \<open>6a\<close> is no per-token decode error. The comparison of its characters
  chooses the loser's branch, \<open>int('a')\<close> raises, and the guard returns seven nulls
  after logging the whitelist Error and its own Error. The same holds for every text on
  the played path that has \<open>6a\<close> among its tokens: the totals of all other tokens are
  lost.
\<close>

theorem non_digit_token_discards_match:
  "parse_score ''6a'' mid code =
     ([PyNone, PyNone, PyNone, PyNone, PyNone, PyNone, PyNone],
      [(Error, NotInWhiteList mid ''6a''), (Error, ParseScoreError mid (ValueError ''a''))])
   \<and> (get_match_ret s = None \<and> ''6a'' \<in> set (py_split s) \<longrightarrow>
        fst (parse_score s mid code) = [PyNone, PyNone, PyNone, PyNone, PyNone, PyNone, PyNone])"
proof -
  have "decode_sets code mid (py_split ''6a'') (py_split ''6a'') tally0 = ([(Error, NotInWhiteList mid ''6a'')], Inl (ValueError ''a''))"
    by (simp add: py_split_examples decode_set_6a)
  from parse_score_fault[OF get_match_ret_examples(3) this] have 1: "parse_score ''6a'' mid code =
     ([PyNone, PyNone, PyNone, PyNone, PyNone, PyNone, PyNone],
      [(Error, NotInWhiteList mid ''6a''), (Error, ParseScoreError mid (ValueError ''a''))])"
    by simp
  have 2: "fst (parse_score s mid code) = [PyNone, PyNone, PyNone, PyNone, PyNone, PyNone, PyNone]"
    if "get_match_ret s = None" "''6a'' \<in> set (py_split s)"
  proof -
    have "isl (snd (decode_sets code mid (py_split s) (py_split s) tally0))"
      by (rule decode_sets_fault[OF that(2)]) (simp add: decode_set_6a)
    from parse_score_fault_result[OF that(1) this] show ?thesis .
  qed
  from 1 2 show ?thesis by blast
qed

theorem non_digit_token_discards_match_witness:
  "get_match_ret ''64 6a 75'' = None \<and> ''6a'' \<in> set (py_split ''64 6a 75'') \<and>
   fst (parse_score ''64 6a 75'' ''m'' ''250'') = [PyNone, PyNone, PyNone, PyNone, PyNone, PyNone, PyNone]
   \<and> fst (parse_score ''64 75'' ''m'' ''250'') = [PyNone, PyInt 2, PyInt 0, PyInt 13, PyInt 9, PyInt 0, PyInt 0]"
proof -
  have "decode_sets ''250'' ''m'' (py_split ''64 75'') (py_split ''64 75'') tally0 =
     ([], Inr \<lparr>winner_sets_won = 2, loser_sets_won = 0, winner_games_won = 13,
             loser_games_won = 9, winner_tiebreaks_won = 0, loser_tiebreaks_won = 0\<rparr>)"
    by (simp add: py_split_examples decode_set_64 decode_set_75 tally0_def)
  from parse_score_played[OF get_match_ret_examples(5) this]
  have "fst (parse_score ''64 75'' ''m'' ''250'') = [PyNone, PyInt 2, PyInt 0, PyInt 13, PyInt 9, PyInt 0, PyInt 0]"
    by (simp add: tally_result_def)
  then show ?thesis
    using non_digit_token_discards_match[of "''m''" "''250''" "''64 6a 75''"]
    by (simp add: get_match_ret_examples py_split_examples)
qed

section \<open>Bracket tokens\<close>

text \<open>
  C6. A token that contains \<open>[\<close> is decoded as one set, one game and one tiebreak for
  the winner and nothing for the loser. One diagnostic is logged, Info under the Laver
  Cup code \<open>9210\<close> and Warning under any other code, and the new totals are the same
  for any two codes.
\<close>

theorem bracket_tie_set:
  assumes "CHR ''['' \<in> set set_score"
  shows "decode_set code mid arr set_score t =
     ([if code = ''9210'' then (Info, TieSetLaver mid set_score arr)
       else (Warning, TieSetNonLaver mid set_score arr)],
      Inr (t\<lparr>winner_sets_won := winner_sets_won t + 1,
              winner_games_won := winner_games_won t + 1,
              winner_tiebreaks_won := winner_tiebreaks_won t + 1\<rparr>))
    \<and> snd (decode_set code mid arr set_score t) = snd (decode_set code' mid arr set_score t)"
  using assms by (simp add: decode_set_def bracket_set_def)

theorem bracket_tie_set_witness:
  "CHR ''['' \<in> set ''[10-8]'' \<and>
   parse_score ''[10-8]'' ''m'' ''9210'' =
     ([PyNone, PyInt 1, PyInt 0, PyInt 1, PyInt 0, PyInt 1, PyInt 0],
      [(Info, TieSetLaver ''m'' ''[10-8]'' [''[10-8]'']),
       (Error, UnexpectedMatchScore ''10'' ''m'' [''[10-8]''])])"
proof -
  have b: "CHR ''['' \<in> set ''[10-8]''" by simp
  have "decode_sets ''9210'' ''m'' (py_split ''[10-8]'') (py_split ''[10-8]'') tally0 =
     ([(Info, TieSetLaver ''m'' ''[10-8]'' [''[10-8]''])],
      Inr \<lparr>winner_sets_won = 1, loser_sets_won = 0, winner_games_won = 1,
             loser_games_won = 0, winner_tiebreaks_won = 1, loser_tiebreaks_won = 0\<rparr>)"
    using bracket_tie_set[OF b, of "''9210''" "''m''" "[''[10-8]'']" tally0]
    by (simp add: py_split_examples tally0_def)
  from parse_score_played[OF get_match_ret_examples(6) this] show ?thesis
    by (simp add: tally_result_def set_count_log_def py_str_small py_split_examples)
qed


section \<open>Tiebreaks from two-character tokens\<close>

text \<open>
  C4. For a two-character token that is decoded without fault, the winner's tiebreak
  count grows by one exactly when the token is \<open>76\<close>, or \<open>43\<close> under the NextGen code
  \<open>7696\<close>, and the loser's exactly when it is \<open>67\<close>, or \<open>34\<close> under that code. The
  four pairs are decoded without fault under every code. The text \<open>76 36 76\<close> under
  code \<open>250\<close> gives winner sets 2, loser sets 1, winner tiebreaks 2, loser tiebreaks 0.
\<close>

theorem tiebreak_attribution:
  "(length set_score = 2 \<and> CHR ''['' \<notin> set set_score
      \<and> decode_set code mid arr set_score t = (log, Inr t') \<longrightarrow>
      winner_tiebreaks_won t' = winner_tiebreaks_won t
         + (if set_score = ''76'' \<or> set_score = ''43'' \<and> code = ''7696'' then 1 else 0)
      \<and> loser_tiebreaks_won t' = loser_tiebreaks_won t
         + (if set_score = ''67'' \<or> set_score = ''34'' \<and> code = ''7696'' then 1 else 0))
   \<and> map_sum id winner_tiebreaks_won (snd (decode_set code mid arr ''76'' t))
        = Inr (winner_tiebreaks_won t + 1)
   \<and> map_sum id loser_tiebreaks_won (snd (decode_set code mid arr ''67'' t))
        = Inr (loser_tiebreaks_won t + 1)
   \<and> map_sum id winner_tiebreaks_won (snd (decode_set code mid arr ''43'' t))
        = Inr (winner_tiebreaks_won t + (if code = ''7696'' then 1 else 0))
   \<and> map_sum id loser_tiebreaks_won (snd (decode_set code mid arr ''34'' t))
        = Inr (loser_tiebreaks_won t + (if code = ''7696'' then 1 else 0))
   \<and> fst (parse_score ''76 36 76'' mid ''250'')
        = [PyNone, PyInt 2, PyInt 1, PyInt 17, PyInt 18, PyInt 2, PyInt 0]"
proof -
  have general: "winner_tiebreaks_won t' = winner_tiebreaks_won t
         + (if set_score = ''76'' \<or> set_score = ''43'' \<and> code = ''7696'' then 1 else 0)
      \<and> loser_tiebreaks_won t' = loser_tiebreaks_won t
         + (if set_score = ''67'' \<or> set_score = ''34'' \<and> code = ''7696'' then 1 else 0)"
    if len: "length set_score = 2" and nb: "CHR ''['' \<notin> set set_score"
      and d: "decode_set code mid arr set_score t = (log, Inr t')"
  proof -
    from length_two[OF len] obtain a b where ab: "set_score = [a, b]" by blast
    from d have "two_char_set code mid arr [a, b] t = (log, Inr t')"
      using decode_set_two[OF nb len] ab by simp
    from two_char_tiebreaks[OF this] ab show ?thesis by simp
  qed
  have "decode_sets ''250'' mid (py_split ''76 36 76'') (py_split ''76 36 76'') tally0
     = ([], Inr \<lparr>winner_sets_won = 2, loser_sets_won = 1, winner_games_won = 17,
             loser_games_won = 18, winner_tiebreaks_won = 2, loser_tiebreaks_won = 0\<rparr>)"
    by (simp add: py_split_examples decode_set_76 decode_set_36 tally0_def)
  from parse_score_played[OF get_match_ret_examples(2) this]
  have scenario: "fst (parse_score ''76 36 76'' mid ''250'')
        = [PyNone, PyInt 2, PyInt 1, PyInt 17, PyInt 18, PyInt 2, PyInt 0]"
    by (simp add: tally_result_def)
  have pairs: "map_sum id winner_tiebreaks_won (snd (decode_set code mid arr ''76'' t))
        = Inr (winner_tiebreaks_won t + 1)"
    "map_sum id loser_tiebreaks_won (snd (decode_set code mid arr ''67'' t))
        = Inr (loser_tiebreaks_won t + 1)"
    "map_sum id winner_tiebreaks_won (snd (decode_set code mid arr ''43'' t))
        = Inr (winner_tiebreaks_won t + (if code = ''7696'' then 1 else 0))"
    "map_sum id loser_tiebreaks_won (snd (decode_set code mid arr ''34'' t))
        = Inr (loser_tiebreaks_won t + (if code = ''7696'' then 1 else 0))"
    by (simp_all add: decode_set_76 decode_set_67 decode_set_43 decode_set_34)
  from general scenario pairs show ?thesis by blast
qed

theorem tiebreak_attribution_witness:
  "length ''43'' = 2 \<and> CHR ''['' \<notin> set ''43''
   \<and> decode_set ''7696'' ''m'' [''43''] ''43'' tally0 =
       ([(Error, NotInWhiteList ''m'' ''43'')],
        Inr \<lparr>winner_sets_won = 1, loser_sets_won = 0, winner_games_won = 4,
             loser_games_won = 3, winner_tiebreaks_won = 1, loser_tiebreaks_won = 0\<rparr>)
   \<and> winner_tiebreaks_won \<lparr>winner_sets_won = 1, loser_sets_won = 0, winner_games_won = 4,
             loser_games_won = 3, winner_tiebreaks_won = 1, loser_tiebreaks_won = 0\<rparr>
       = winner_tiebreaks_won tally0 + 1"
  using tiebreak_attribution[of "''43''" "''7696''" "''m''" "[''43'']" tally0
      "[(Error, NotInWhiteList ''m'' ''43'')]"
      "\<lparr>winner_sets_won = 1, loser_sets_won = 0, winner_games_won = 4,
             loser_games_won = 3, winner_tiebreaks_won = 1, loser_tiebreaks_won = 0\<rparr>"]
  by (simp add: decode_set_43 tally0_def)


section \<open>The outer guard\<close>

lemma parse_score_try_length:
  assumes "parse_score_try s mid code = (log, Inr r)"
  shows "length r = 7"
  using assms
  by (auto simp: parse_score_try_def tally_result_def Let_def
      split: option.splits prod.splits sum.splits)

lemma parse_score_try_shape:
  assumes "parse_score_try s mid code = (log, Inr r)"
  shows "(\<exists>flag. r = [PyStr flag, PyNone, PyNone, PyNone, PyNone, PyNone, PyNone])
       \<or> (\<exists>t. r = tally_result t)"
  using assms
  by (auto simp: parse_score_try_def Let_def
      split: option.splits prod.splits sum.splits)

lemma parse_score_try_6a:
  "parse_score_try ''6a'' mid code = ([(Error, NotInWhiteList mid ''6a'')], Inl (ValueError ''a''))"
  by (simp add: parse_score_try_def get_match_ret_examples py_split_examples decode_set_6a)

lemma parse_score_try_RET:
  "parse_score_try ''RET'' mid code = ([], Inr [PyStr ''(RET)'', PyNone, PyNone, PyNone, PyNone, PyNone, PyNone])"
  by (simp add: parse_score_try_def get_match_ret_examples)

lemma parse_score_try_64_75:
  "parse_score_try ''64 75'' mid code = ([], Inr [PyNone, PyInt 2, PyInt 0, PyInt 13, PyInt 9, PyInt 0, PyInt 0])"
  by (simp add: parse_score_try_def get_match_ret_examples py_split_examples decode_set_64 decode_set_75
      tally0_def tally_result_def set_count_log_def py_str_small)

text \<open>
  C3. \<open>parse_score\<close> returns a list of seven values for every input. When the block
  under \<open>try\<close> raises, the guard returns seven nulls and logs exactly one Error
  diagnostic after those logged before the fault; when it does not raise, its result
  and diagnostics are returned as they are.
\<close>

theorem parse_score_never_raises:
  "length (fst (parse_score s mid code)) = 7
   \<and> (parse_score_try s mid code = (log, Inl e) \<longrightarrow>
        parse_score s mid code =
          ([PyNone, PyNone, PyNone, PyNone, PyNone, PyNone, PyNone],
           log @ [(Error, ParseScoreError mid e)]))
   \<and> (parse_score_try s mid code = (log, Inr r) \<longrightarrow> parse_score s mid code = (r, log))"
proof -
  obtain l x where p: "parse_score_try s mid code = (l, x)"
    by (cases "parse_score_try s mid code")
  have "length (fst (parse_score s mid code)) = 7"
  proof (cases x)
    case (Inl e')
    with p show ?thesis by (simp add: parse_score_def)
  next
    case (Inr r')
    with p parse_score_try_length[of s mid code l r'] show ?thesis
      by (simp add: parse_score_def)
  qed
  then show ?thesis by (simp add: parse_score_def)
qed

theorem parse_score_never_raises_witness:
  "parse_score_try ''6a'' ''m'' ''250'' =
     ([(Error, NotInWhiteList ''m'' ''6a'')], Inl (ValueError ''a''))
   \<and> parse_score ''6a'' ''m'' ''250'' =
     ([PyNone, PyNone, PyNone, PyNone, PyNone, PyNone, PyNone],
      [(Error, NotInWhiteList ''m'' ''6a''), (Error, ParseScoreError ''m'' (ValueError ''a''))])
   \<and> length (fst (parse_score ''6a'' ''m'' ''250'')) = 7
   \<and> parse_score_try ''64 75'' ''m'' ''250'' =
     ([], Inr [PyNone, PyInt 2, PyInt 0, PyInt 13, PyInt 9, PyInt 0, PyInt 0])
   \<and> parse_score ''64 75'' ''m'' ''250'' =
     ([PyNone, PyInt 2, PyInt 0, PyInt 13, PyInt 9, PyInt 0, PyInt 0], [])"
  using parse_score_never_raises[of "''6a''" "''m''" "''250''"
      "[(Error, NotInWhiteList ''m'' ''6a'')]" "ValueError ''a''"]
    parse_score_never_raises[of "''64 75''" "''m''" "''250''" "[]" _
      "[PyNone, PyInt 2, PyInt 0, PyInt 13, PyInt 9, PyInt 0, PyInt 0]"]
  by (simp add: parse_score_try_6a parse_score_try_64_75)

section \<open>Set and unset fields\<close>

text \<open>
  C2, as stated, fails: the text \<open>6a\<close> returns a null outcome flag and six unset
  numeric fields.
\<close>

theorem null_flag_fields_set_counterexample:
  "\<not> ((outcome_flag (fst (parse_score ''6a'' ''m'' ''250'')) \<noteq> PyNone \<longrightarrow>
         list_all field_unset (numeric_fields (fst (parse_score ''6a'' ''m'' ''250''))))
      \<and> (outcome_flag (fst (parse_score ''6a'' ''m'' ''250'')) = PyNone \<longrightarrow>
         list_all field_set (numeric_fields (fst (parse_score ''6a'' ''m'' ''250'')))))"
  by (simp add: parse_score_def parse_score_try_6a outcome_flag_def numeric_fields_def field_set_def)

text \<open>
  C2, amended. The returned list has seven positions. If the outcome flag is not null,
  all six numeric fields are unset. If the outcome flag is null, all six numeric fields
  are set, unless a fault was caught by the outer guard, in which case all six are
  unset.
\<close>

theorem aggregate_fields_by_outcome:
  "length (fst (parse_score s mid code)) = 7
   \<and> (outcome_flag (fst (parse_score s mid code)) \<noteq> PyNone \<longrightarrow>
        list_all field_unset (numeric_fields (fst (parse_score s mid code))))
   \<and> (outcome_flag (fst (parse_score s mid code)) = PyNone \<longrightarrow>
        (if isl (snd (parse_score_try s mid code))
         then list_all field_unset (numeric_fields (fst (parse_score s mid code)))
         else list_all field_set (numeric_fields (fst (parse_score s mid code)))))"
proof -
  obtain l x where p: "parse_score_try s mid code = (l, x)"
    by (cases "parse_score_try s mid code")
  show ?thesis
  proof (cases x)
    case (Inl e)
    with p show ?thesis
      by (simp add: parse_score_def outcome_flag_def numeric_fields_def field_unset_def)
  next
    case (Inr r)
    with p have ps: "fst (parse_score s mid code) = r" by (simp add: parse_score_def)
    from parse_score_try_shape[of s mid code l r] p Inr
    consider flag where "r = [PyStr flag, PyNone, PyNone, PyNone, PyNone, PyNone, PyNone]"
      | t where "r = tally_result t" by auto
    then show ?thesis
    proof cases
      case 1
      with p Inr ps show ?thesis
        by (simp add: outcome_flag_def numeric_fields_def field_unset_def)
    next
      case 2
      with p Inr ps show ?thesis
        by (simp add: outcome_flag_def numeric_fields_def field_set_def tally_result_def)
    qed
  qed
qed

theorem aggregate_fields_by_outcome_witness:
  "outcome_flag (fst (parse_score ''RET'' ''m'' ''250'')) = PyStr ''(RET)''
   \<and> list_all field_unset (numeric_fields (fst (parse_score ''RET'' ''m'' ''250'')))
   \<and> outcome_flag (fst (parse_score ''64 75'' ''m'' ''250'')) = PyNone
   \<and> \<not> isl (snd (parse_score_try ''64 75'' ''m'' ''250''))
   \<and> list_all field_set (numeric_fields (fst (parse_score ''64 75'' ''m'' ''250'')))
   \<and> outcome_flag (fst (parse_score ''6a'' ''m'' ''250'')) = PyNone
   \<and> isl (snd (parse_score_try ''6a'' ''m'' ''250''))
   \<and> list_all field_unset (numeric_fields (fst (parse_score ''6a'' ''m'' ''250'')))"
proof -
  have flags: "outcome_flag (fst (parse_score ''RET'' ''m'' ''250'')) = PyStr ''(RET)''"
    "outcome_flag (fst (parse_score ''64 75'' ''m'' ''250'')) = PyNone"
    "\<not> isl (snd (parse_score_try ''64 75'' ''m'' ''250''))"
    "outcome_flag (fst (parse_score ''6a'' ''m'' ''250'')) = PyNone"
    "isl (snd (parse_score_try ''6a'' ''m'' ''250''))"
    by (simp_all add: parse_score_def parse_score_try_RET parse_score_try_64_75
        parse_score_try_6a outcome_flag_def)
  with aggregate_fields_by_outcome[of "''RET''" "''m''" "''250''"]
    aggregate_fields_by_outcome[of "''64 75''" "''m''" "''250''"]
    aggregate_fields_by_outcome[of "''6a''" "''m''" "''250''"]
  show ?thesis by simp
qed


section \<open>The check of the final set count\<close>

lemma str_nat_nonempty: "str_nat n \<noteq> []"
  by (subst str_nat.simps) simp

lemma str_nat_digit: "n < 10 \<Longrightarrow> str_nat n = [char_of (48 + n)]"
  by (subst str_nat.simps) simp

lemma length_str_nat_one: "length (str_nat n) = 1 \<longleftrightarrow> n < 10"
proof
  assume l: "length (str_nat n) = 1"
  show "n < 10"
  proof (rule ccontr)
    assume "\<not> n < 10"
    then have "str_nat n = str_nat (n div 10) @ [char_of (48 + n mod 10)]"
      by (subst str_nat.simps) simp
    with l have "str_nat (n div 10) = []" by simp
    with str_nat_nonempty show False by blast
  qed
next
  assume "n < 10"
  then show "length (str_nat n) = 1" by (simp add: str_nat_digit)
qed

lemma py_str_nonempty: "py_str i \<noteq> []"
  by (simp add: py_str_def str_nat_nonempty)

lemma py_str_single:
  assumes "py_str i = [c]"
  shows "i = digit_val c"
proof -
  have nonneg: "0 \<le> i"
  proof (rule ccontr)
    assume "\<not> 0 \<le> i"
    with assms have "str_nat (nat (- i)) = []" by (simp add: py_str_def)
    with str_nat_nonempty show False by blast
  qed
  with assms have s: "str_nat (nat i) = [c]" by (simp add: py_str_def)
  then have "length (str_nat (nat i)) = 1" by simp
  then have lt: "nat i < 10" by (simp only: length_str_nat_one)
  with s have "c = char_of (48 + nat i)" by (simp add: str_nat_digit)
  with lt nonneg show ?thesis by (simp add: digit_val_def)
qed

lemma append_is_pair:
  assumes "xs \<noteq> []" "ys \<noteq> []" "xs @ ys = [a, b]"
  shows "xs = [a] \<and> ys = [b]"
proof -
  from assms(1) obtain x xs' where xs: "xs = x # xs'" by (cases xs) auto
  from assms(2) obtain y ys' where ys: "ys = y # ys'" by (cases ys) auto
  from assms(3) xs ys have "x = a" "xs' @ y # ys' = [b]" by simp_all
  then have "xs' = []" "y = b" "ys' = []" by (cases xs'; simp)+
  with xs ys \<open>x = a\<close> show ?thesis by simp
qed

lemma py_str_pair:
  assumes "py_str w @ py_str l = [a, b]"
  shows "w = digit_val a \<and> l = digit_val b"
  using append_is_pair[OF py_str_nonempty py_str_nonempty assms] py_str_single by blast

lemma allowed_set_count:
  "py_str w @ py_str l \<in> {''30'', ''31'', ''32'', ''21'', ''20''}
     \<longleftrightarrow> (w, l) \<in> {(3, 0), (3, 1), (3, 2), (2, 1), (2, 0)}"
proof
  assume "py_str w @ py_str l \<in> {''30'', ''31'', ''32'', ''21'', ''20''}"
  then consider (a) "py_str w @ py_str l = ''30''" | (b) "py_str w @ py_str l = ''31''"
    | (c) "py_str w @ py_str l = ''32''" | (d) "py_str w @ py_str l = ''21''"
    | (e) "py_str w @ py_str l = ''20''"
    by (elim insertE emptyE) blast+
  then show "(w, l) \<in> {(3, 0), (3, 1), (3, 2), (2, 1), (2, 0)}"
  proof cases
    case a
    from py_str_pair[OF a] show ?thesis by (simp add: digit_vals)
  next
    case b
    from py_str_pair[OF b] show ?thesis by (simp add: digit_vals)
  next
    case c
    from py_str_pair[OF c] show ?thesis by (simp add: digit_vals)
  next
    case d
    from py_str_pair[OF d] show ?thesis by (simp add: digit_vals)
  next
    case e
    from py_str_pair[OF e] show ?thesis by (simp add: digit_vals)
  qed
next
  assume "(w, l) \<in> {(3, 0), (3, 1), (3, 2), (2, 1), (2, 0)}"
  then show "py_str w @ py_str l \<in> {''30'', ''31'', ''32'', ''21'', ''20''}"
    by (elim insertE emptyE) (simp_all add: py_str_small)
qed

lemma decode_set_108:
  "decode_set code mid arr ''108'' t =
     ([], Inr (t\<lparr>winner_sets_won := winner_sets_won t + 1,
                  winner_games_won := winner_games_won t + 10,
                  loser_games_won := loser_games_won t + 8\<rparr>))"
  by (simp add: decode_set_def three_char_set_def)

lemma examples_108: "get_match_ret ''108'' = None" "py_split ''108'' = [''108'']"
  by code_simp+

text \<open>
  C8. On the played path without fault, the returned list is the list of the totals the
  loop ended with, and the check of the set count adds one Error diagnostic exactly when
  the pair of winner sets and loser sets is none of 3-0, 3-1, 3-2, 2-1, 2-0; it adds
  nothing otherwise.
\<close>

theorem set_count_check:
  assumes "get_match_ret s = None"
    and "decode_sets code mid (py_split s) (py_split s) tally0 = (log, Inr t)"
  shows "parse_score s mid code =
     (tally_result t,
      log @ (if (winner_sets_won t, loser_sets_won t) \<notin> {(3, 0), (3, 1), (3, 2), (2, 1), (2, 0)}
             then [(Error, UnexpectedMatchScore
                      (py_str (winner_sets_won t) @ py_str (loser_sets_won t)) mid (py_split s))]
             else []))"
proof -
  have "set_count_log mid (py_split s) t =
     (if py_str (winner_sets_won t) @ py_str (loser_sets_won t)
           \<notin> {''30'', ''31'', ''32'', ''21'', ''20''}
      then [(Error, UnexpectedMatchScore
               (py_str (winner_sets_won t) @ py_str (loser_sets_won t)) mid (py_split s))]
      else [])"
    by (simp only: set_count_log_def Let_def)
  then have "set_count_log mid (py_split s) t =
     (if (winner_sets_won t, loser_sets_won t) \<notin> {(3, 0), (3, 1), (3, 2), (2, 1), (2, 0)}
      then [(Error, UnexpectedMatchScore
               (py_str (winner_sets_won t) @ py_str (loser_sets_won t)) mid (py_split s))]
      else [])"
    by (simp only: allowed_set_count)
  with parse_score_played[OF assms] show ?thesis by (simp only:)
qed

theorem set_count_check_witness:
  "parse_score ''64 75'' ''m'' ''250'' =
     ([PyNone, PyInt 2, PyInt 0, PyInt 13, PyInt 9, PyInt 0, PyInt 0], [])
   \<and> parse_score ''108'' ''m'' ''520'' =
     ([PyNone, PyInt 1, PyInt 0, PyInt 10, PyInt 8, PyInt 0, PyInt 0],
      [(Error, UnexpectedMatchScore ''10'' ''m'' [''108''])])"
proof -
  have a: "decode_sets ''250'' ''m'' (py_split ''64 75'') (py_split ''64 75'') tally0 =
     ([], Inr \<lparr>winner_sets_won = 2, loser_sets_won = 0, winner_games_won = 13,
             loser_games_won = 9, winner_tiebreaks_won = 0, loser_tiebreaks_won = 0\<rparr>)"
    by (simp add: py_split_examples decode_set_64 decode_set_75 tally0_def)
  have b: "decode_sets ''520'' ''m'' (py_split ''108'') (py_split ''108'') tally0 =
     ([], Inr \<lparr>winner_sets_won = 1, loser_sets_won = 0, winner_games_won = 10,
             loser_games_won = 8, winner_tiebreaks_won = 0, loser_tiebreaks_won = 0\<rparr>)"
    by (simp add: examples_108 decode_set_108 tally0_def)
  from set_count_check[OF get_match_ret_examples(5) a] set_count_check[OF examples_108(1) b]
  show ?thesis
    by (simp add: tally_result_def py_str_small examples_108)
qed


section \<open>Sets and tokens\<close>

lemma bracket_set_sets: "bracket_set code mid arr tok t = (log, Inr t') \<Longrightarrow> sets_step t t'"
  by (auto simp: bracket_set_def sets_step_def)

lemma two_char_set_sets: "two_char_set code mid arr tok t = (log, Inr t') \<Longrightarrow> sets_step t t'"
  by (auto simp: two_char_set_def sets_step_def Let_def split: if_splits sum.splits)

lemma three_char_set_sets: "three_char_set mid tok t = (log, Inr t') \<Longrightarrow> sets_step t t'"
  by (auto simp: three_char_set_def sets_step_def Let_def split: if_splits sum.splits)

lemma four_char_set_sets: "four_char_set code mid arr tok t = (log, Inr t') \<Longrightarrow> sets_step t t'"
  by (auto simp: four_char_set_def sets_step_def Let_def split: if_splits sum.splits)

lemma long_set_sets: "long_set mid tok t = (log, Inr t') \<Longrightarrow> sets_step t t'"
  by (auto simp: long_set_def sets_step_def Let_def split: if_splits sum.splits)

lemma sets_step_refl: "sets_step t t"
  by (simp add: sets_step_def)

lemma decode_set_sets:
  assumes "decode_set code mid arr tok t = (log, Inr t')"
  shows "sets_step t t'"
  using assms unfolding decode_set_def
  by (auto split: if_splits
      intro: bracket_set_sets two_char_set_sets three_char_set_sets four_char_set_sets
        long_set_sets sets_step_refl)

lemma decode_sets_sets:
  assumes "decode_sets code mid arr toks t = (log, Inr t')"
  shows "winner_sets_won t \<le> winner_sets_won t' \<and> loser_sets_won t \<le> loser_sets_won t'
       \<and> winner_sets_won t' + loser_sets_won t'
           \<le> winner_sets_won t + loser_sets_won t + int (length toks)"
  using assms
proof (induction toks arbitrary: t log)
  case Nil
  then show ?case by simp
next
  case (Cons tok toks)
  obtain l1 r1 where d1: "decode_set code mid arr tok t = (l1, r1)"
    by (cases "decode_set code mid arr tok t")
  show ?case
  proof (cases r1)
    case (Inl e)
    with d1 Cons.prems show ?thesis by simp
  next
    case (Inr t1)
    obtain l2 r2 where d2: "decode_sets code mid arr toks t1 = (l2, r2)"
      by (cases "decode_sets code mid arr toks t1")
    with d1 Inr Cons.prems have "r2 = Inr t'" by simp
    with d2 have "decode_sets code mid arr toks t1 = (l2, Inr t')" by simp
    from Cons.IH[OF this] decode_set_sets[of code mid arr tok t l1 t1] d1 Inr
    show ?thesis by (auto simp: sets_step_def)
  qed
qed

lemma parse_score_played_totals:
  assumes "fst (parse_score s mid code) = PyNone # PyInt w # PyInt l # rest"
  shows "\<exists>log t. get_match_ret s = None
           \<and> decode_sets code mid (py_split s) (py_split s) tally0 = (log, Inr t)
           \<and> w = winner_sets_won t \<and> l = loser_sets_won t"
proof (cases "get_match_ret s")
  case (Some flag)
  from parse_score_not_played[OF this, of mid code] assms show ?thesis by simp
next
  case None
  obtain log r where d: "decode_sets code mid (py_split s) (py_split s) tally0 = (log, r)"
    by (cases "decode_sets code mid (py_split s) (py_split s) tally0")
  show ?thesis
  proof (cases r)
    case (Inl e)
    with parse_score_fault[OF None, of code mid log e] d assms show ?thesis by simp
  next
    case (Inr t)
    with parse_score_played[OF None, of code mid log t] d assms None show ?thesis
      by (simp add: tally_result_def)
  qed
qed

text \<open>
  C9. When the returned list has a null outcome flag and integer set counts (the played
  path without fault), the two set counts are not negative and their sum is at most the
  number of tokens of \<open>split()\<close>. Each token that is decoded without fault leaves both
  set counters as they are or adds one to exactly one of them.
\<close>

theorem sets_bounded_by_tokens:
  "(fst (parse_score s mid code) = PyNone # PyInt w # PyInt l # rest \<longrightarrow>
      0 \<le> w \<and> 0 \<le> l \<and> w + l \<le> int (length (py_split s)))
   \<and> (decode_set code mid arr set_score t = (log, Inr t') \<longrightarrow> sets_step t t')"
proof -
  have "0 \<le> w \<and> 0 \<le> l \<and> w + l \<le> int (length (py_split s))"
    if "fst (parse_score s mid code) = PyNone # PyInt w # PyInt l # rest"
  proof -
    from parse_score_played_totals[OF that] obtain lg tt where
      d: "decode_sets code mid (py_split s) (py_split s) tally0 = (lg, Inr tt)"
      and w: "w = winner_sets_won tt" and l: "l = loser_sets_won tt" by blast
    from decode_sets_sets[OF d] w l show ?thesis by (simp add: tally0_def)
  qed
  with decode_set_sets show ?thesis by blast
qed

theorem sets_bounded_by_tokens_witness:
  "fst (parse_score ''76 36 76'' ''m'' ''250'')
      = PyNone # PyInt 2 # PyInt 1 # [PyInt 17, PyInt 18, PyInt 2, PyInt 0]
   \<and> length (py_split ''76 36 76'') = 3 \<and> (2::int) + 1 \<le> int (length (py_split ''76 36 76''))
   \<and> decode_set ''250'' ''m'' [''76''] ''76'' tally0 =
        ([], Inr \<lparr>winner_sets_won = 1, loser_sets_won = 0, winner_games_won = 7,
             loser_games_won = 6, winner_tiebreaks_won = 1, loser_tiebreaks_won = 0\<rparr>)
   \<and> sets_step tally0 \<lparr>winner_sets_won = 1, loser_sets_won = 0, winner_games_won = 7,
             loser_games_won = 6, winner_tiebreaks_won = 1, loser_tiebreaks_won = 0\<rparr>"
proof -
  have "decode_sets ''250'' ''m'' (py_split ''76 36 76'') (py_split ''76 36 76'') tally0
     = ([], Inr \<lparr>winner_sets_won = 2, loser_sets_won = 1, winner_games_won = 17,
             loser_games_won = 18, winner_tiebreaks_won = 2, loser_tiebreaks_won = 0\<rparr>)"
    by (simp add: py_split_examples decode_set_76 decode_set_36 tally0_def)
  from parse_score_played[OF get_match_ret_examples(2) this]
  have r: "fst (parse_score ''76 36 76'' ''m'' ''250'')
      = PyNone # PyInt 2 # PyInt 1 # [PyInt 17, PyInt 18, PyInt 2, PyInt 0]"
    by (simp add: tally_result_def)
  have d: "decode_set ''250'' ''m'' [''76''] ''76'' tally0 =
        ([], Inr \<lparr>winner_sets_won = 1, loser_sets_won = 0, winner_games_won = 7,
             loser_games_won = 6, winner_tiebreaks_won = 1, loser_tiebreaks_won = 0\<rparr>)"
    by (simp add: decode_set_76 tally0_def)
  from r d sets_bounded_by_tokens[of "''76 36 76''" "''m''" "''250''" 2 1
      "[PyInt 17, PyInt 18, PyInt 2, PyInt 0]" "[''76'']" "''76''" tally0 "[]"
      "\<lparr>winner_sets_won = 1, loser_sets_won = 0, winner_games_won = 7,
             loser_games_won = 6, winner_tiebreaks_won = 1, loser_tiebreaks_won = 0\<rparr>"]
  show ?thesis by (simp add: py_split_examples)
qed


section \<open>The priority of the classifier's rules\<close>

lemma upper_char_space: "py_isspace c \<Longrightarrow> upper_char c = [c]"
  by (auto simp: py_isspace_def upper_char_def Let_def)

lemma py_upper_spaces: "\<forall>c\<in>set a. py_isspace c \<Longrightarrow> py_upper a = a"
  by (induction a) (simp_all add: py_upper_def upper_char_space)

lemma py_upper_append: "py_upper (a @ b) = py_upper a @ py_upper b"
  by (simp add: py_upper_def)

lemma rev_dropWhile_takeWhile:
  "xs = rev (dropWhile P (rev xs)) @ rev (takeWhile P (rev xs))"
proof -
  have "rev (rev xs) = rev (takeWhile P (rev xs) @ dropWhile P (rev xs))"
    by (simp only: takeWhile_dropWhile_id)
  then show ?thesis by (simp only: rev_rev_ident rev_append)
qed

lemma strip_decomposition:
  "\<exists>a b. s = a @ py_strip s @ b \<and> (\<forall>c\<in>set a. py_isspace c) \<and> (\<forall>c\<in>set b. py_isspace c)"
proof -
  let ?a = "takeWhile py_isspace s"
  let ?d = "dropWhile py_isspace s"
  let ?b = "rev (takeWhile py_isspace (rev ?d))"
  have "?d = py_strip s @ ?b"
    unfolding py_strip_def by (rule rev_dropWhile_takeWhile)
  moreover have "s = ?a @ ?d" by simp
  ultimately have "s = ?a @ py_strip s @ ?b" by (simp only:)
  moreover have "\<forall>c\<in>set ?a. py_isspace c" by (auto dest: set_takeWhileD)
  moreover have "\<forall>c\<in>set ?b. py_isspace c" by (auto dest: set_takeWhileD)
  ultimately show ?thesis by blast
qed

lemma sublist_skip_left:
  assumes "p \<noteq> []" "\<not> py_isspace (hd p)" "\<forall>c\<in>set a. py_isspace c"
  shows "sublist p (a @ t) \<longleftrightarrow> sublist p t"
  using assms(3)
proof (induction a)
  case Nil
  then show ?case by simp
next
  case (Cons c a)
  from assms(1) obtain x p' where p: "p = x # p'" by (cases p) auto
  with assms(2) Cons.prems have "x \<noteq> c" by auto
  with p have "\<not> prefix p (c # a @ t)" by simp
  with Cons show ?case by (simp add: sublist_Cons_right)
qed

lemma sublist_skip_right:
  assumes "p \<noteq> []" "\<not> py_isspace (last p)" "\<forall>c\<in>set b. py_isspace c"
  shows "sublist p (t @ b) \<longleftrightarrow> sublist p t"
proof -
  have "sublist p (t @ b) \<longleftrightarrow> sublist (rev p) (rev b @ rev t)"
    by (simp add: sublist_rev_left)
  also have "\<dots> \<longleftrightarrow> sublist (rev p) (rev t)"
    using assms by (intro sublist_skip_left) (simp_all add: hd_rev)
  also have "\<dots> \<longleftrightarrow> sublist p t" by simp
  finally show ?thesis .
qed

lemma sublist_upper_strip:
  assumes "p \<noteq> []" "\<not> py_isspace (hd p)" "\<not> py_isspace (last p)"
  shows "sublist p (py_upper (py_strip s)) \<longleftrightarrow> contains_ci s p"
proof -
  from strip_decomposition[of s] obtain a b where s: "s = a @ py_strip s @ b"
    and a: "\<forall>c\<in>set a. py_isspace c" and b: "\<forall>c\<in>set b. py_isspace c" by blast
  have "py_upper s = py_upper (a @ py_strip s @ b)" using s by simp
  also have "\<dots> = a @ py_upper (py_strip s) @ b"
    by (simp add: py_upper_append py_upper_spaces a b)
  finally have "contains_ci s p \<longleftrightarrow> sublist p (a @ py_upper (py_strip s) @ b)"
    by (simp add: contains_ci_def)
  also have "\<dots> \<longleftrightarrow> sublist p (py_upper (py_strip s) @ b)"
    by (rule sublist_skip_left[OF assms(1,2) a])
  also have "\<dots> \<longleftrightarrow> sublist p (py_upper (py_strip s))"
    by (rule sublist_skip_right[OF assms(1,3) b])
  finally show ?thesis by simp
qed

lemma rule_patterns:
  "sublist ''W/O'' (py_upper (py_strip s)) \<longleftrightarrow> contains_ci s ''W/O''"
  "sublist ''INV'' (py_upper (py_strip s)) \<longleftrightarrow> contains_ci s ''INV''"
  "sublist ''WALKOVER'' (py_upper (py_strip s)) \<longleftrightarrow> contains_ci s ''WALKOVER''"
  "sublist ''WEA'' (py_upper (py_strip s)) \<longleftrightarrow> contains_ci s ''WEA''"
  "sublist ''RE'' (py_upper (py_strip s)) \<longleftrightarrow> contains_ci s ''RE''"
  "sublist ''RET'' (py_upper (py_strip s)) \<longleftrightarrow> contains_ci s ''RET''"
  "sublist ''DEF'' (py_upper (py_strip s)) \<longleftrightarrow> contains_ci s ''DEF''"
  "sublist ''UNP'' (py_upper (py_strip s)) \<longleftrightarrow> contains_ci s ''UNP''"
  "sublist ''PLAYED AND UNFINISHED'' (py_upper (py_strip s))
     \<longleftrightarrow> contains_ci s ''PLAYED AND UNFINISHED''"
  "sublist ''PLAYED AND ABANDONED'' (py_upper (py_strip s))
     \<longleftrightarrow> contains_ci s ''PLAYED AND ABANDONED''"
  "sublist ''UNFINISHED'' (py_upper (py_strip s)) \<longleftrightarrow> contains_ci s ''UNFINISHED''"
  by (rule sublist_upper_strip; simp add: py_isspace_def)+

text \<open>
  C5. The classifier decides by the case-insensitive substring tests on the raw text, in
  this order, the first that holds winning: \<open>W/O\<close>, \<open>INV\<close> or \<open>WALKOVER\<close> give
  Walkover, whatever else the text contains; otherwise \<open>WEA\<close> gives Weather; otherwise
  \<open>RE\<close>, \<open>RET\<close>, \<open>DEF\<close>, \<open>UNP\<close> or one of the unfinished and abandoned phrases gives
  Retired; otherwise the match is Played (\<open>None\<close>).
\<close>

theorem classifier_priority:
  "get_match_ret s =
     (if contains_ci s ''W/O'' \<or> contains_ci s ''INV'' \<or> contains_ci s ''WALKOVER''
      then Some ''(W/O)''
      else if contains_ci s ''WEA'' then Some ''(WEA)''
      else if contains_ci s ''RE'' \<or> contains_ci s ''RET'' \<or> contains_ci s ''DEF''
              \<or> contains_ci s ''UNP'' \<or> contains_ci s ''PLAYED AND UNFINISHED''
              \<or> contains_ci s ''PLAYED AND ABANDONED'' \<or> contains_ci s ''UNFINISHED''
      then Some ''(RET)''
      else None)"
proof (cases "py_strip s = []")
  case True
  then have "py_upper (py_strip s) = []" by (simp add: py_upper_def)
  then have none:
    "\<not> contains_ci s ''W/O''" "\<not> contains_ci s ''INV''" "\<not> contains_ci s ''WALKOVER''"
    "\<not> contains_ci s ''WEA''" "\<not> contains_ci s ''RE''" "\<not> contains_ci s ''RET''"
    "\<not> contains_ci s ''DEF''" "\<not> contains_ci s ''UNP''"
    "\<not> contains_ci s ''PLAYED AND UNFINISHED''" "\<not> contains_ci s ''PLAYED AND ABANDONED''"
    "\<not> contains_ci s ''UNFINISHED''"
    using rule_patterns[of s] by simp_all
  from True have "get_match_ret s = None" by (simp add: get_match_ret_def)
  with none show ?thesis by simp
next
  case False
  then show ?thesis
    by (simp add: get_match_ret_def Let_def rule_patterns)
qed

lemma classifier_examples:
  "contains_ci ''w/o wea ret'' ''W/O''"
  "\<not> contains_ci ''Wea re'' ''W/O''" "\<not> contains_ci ''Wea re'' ''INV''"
  "\<not> contains_ci ''Wea re'' ''WALKOVER''" "contains_ci ''Wea re'' ''WEA''"
  "\<not> contains_ci ''Retired'' ''W/O''" "\<not> contains_ci ''Retired'' ''INV''"
  "\<not> contains_ci ''Retired'' ''WALKOVER''" "\<not> contains_ci ''Retired'' ''WEA''"
  "contains_ci ''Retired'' ''RE''"
  "\<not> contains_ci ''64 75'' ''W/O''" "\<not> contains_ci ''64 75'' ''INV''"
  "\<not> contains_ci ''64 75'' ''WALKOVER''" "\<not> contains_ci ''64 75'' ''WEA''"
  "\<not> contains_ci ''64 75'' ''RE''" "\<not> contains_ci ''64 75'' ''RET''"
  "\<not> contains_ci ''64 75'' ''DEF''" "\<not> contains_ci ''64 75'' ''UNP''"
  "\<not> contains_ci ''64 75'' ''PLAYED AND UNFINISHED''"
  "\<not> contains_ci ''64 75'' ''PLAYED AND ABANDONED''"
  "\<not> contains_ci ''64 75'' ''UNFINISHED''"
  by code_simp+

theorem classifier_priority_witness:
  "contains_ci ''w/o wea ret'' ''W/O'' \<and> get_match_ret ''w/o wea ret'' = Some ''(W/O)''
   \<and> contains_ci ''Wea re'' ''WEA'' \<and> get_match_ret ''Wea re'' = Some ''(WEA)''
   \<and> contains_ci ''Retired'' ''RE'' \<and> get_match_ret ''Retired'' = Some ''(RET)''
   \<and> get_match_ret ''64 75'' = None"
  using classifier_priority[of "''w/o wea ret''"] classifier_priority[of "''Wea re''"]
    classifier_priority[of "''Retired''"] classifier_priority[of "''64 75''"]
  by (simp add: classifier_examples)


end
